theory Spec2Isabelle
  imports Main "HOL-Library.Finite_Map"
begin

section \<open>Data model\<close>

text \<open>
  The module \<^verbatim>\<open>tableauserverclient/server/endpoint/endpoint.py\<close>: the request gateway
  \<^verbatim>\<open>Endpoint\<close> and the version gate \<^verbatim>\<open>api\<close>.

  Python \<^verbatim>\<open>str\<close> and \<^verbatim>\<open>bytes\<close> are both \<open>string\<close>; \<^verbatim>\<open>None\<close> is \<open>None\<close> of an option type;
  a \<^verbatim>\<open>dict\<close> with string keys is a finite map. Parameter names that clash with an attribute
  name carry a prime (\<open>content'\<close>, \<open>auth_token'\<close>, \<open>version'\<close>).
\<close>

type_synonym bytes = string

type_synonym headers = "(string, string) fmap"

text \<open>The values found in a keyword-argument dictionary handed to the transport.\<close>

datatype pyval =
    PyStr string
  | PyInt int
  | PyBool bool
  | PyHeaders headers

type_synonym kwargs = "(string, pyval) fmap"

text \<open>Dictionaries are objects: a reference names one, so that two names can share it.\<close>

type_synonym ref = nat

text \<open>The response envelope of the transport: \<^verbatim>\<open>status_code\<close>, \<^verbatim>\<open>content\<close>, \<^verbatim>\<open>encoding\<close>.\<close>

record response =
  status_code :: int
  content :: bytes
  encoding :: "string option"

text \<open>The fields of a \<^verbatim>\<open>ServerResponseError\<close>.\<close>

record server_error =
  code :: string
  summary :: string
  detail :: string

text \<open>
  Exceptions. \<open>ServerResponseError\<close> and \<open>EndpointUnavailableError\<close> are the two the module
  raises itself (line 1); the others come from its collaborators: a failure of the
  transport, a failure of \<^verbatim>\<open>bytes.decode\<close>, a \<^verbatim>\<open>TypeError\<close> of a comparison.
\<close>

datatype exn =
    ServerResponseError server_error
  | EndpointUnavailableError string
  | TransportError string
  | DecodeError string
  | TypeError

text \<open>
  A verb of the transport session, \<^verbatim>\<open>method(url, **parameters)\<close>: it reads the URL and
  the keyword arguments, answers with a response or raises, and changes the
  transport's own state \<open>'ts\<close>.
\<close>

type_synonym 'ts transport_method = "string \<Rightarrow> kwargs \<Rightarrow> 'ts \<Rightarrow> (exn + response) \<times> 'ts"

record 'ts session =
  get :: "'ts transport_method"
  delete :: "'ts transport_method"
  put :: "'ts transport_method"
  post :: "'ts transport_method"

text \<open>The session context \<^verbatim>\<open>parent_srv\<close>, with the attributes the module reads.\<close>

record 'ts server =
  auth_token :: "string option"
  version :: string
  http_options :: ref
  session :: "'ts session"

text \<open>
  What a call can observe or change. \<open>Transport_call\<close> records an invocation of the
  transport: the URL and keyword arguments it was given and what it answered;
  \<open>Decode\<close> an execution of \<^verbatim>\<open>content.decode(encoding)\<close>; \<open>Log_debug\<close> a record emitted by
  \<^verbatim>\<open>logger.debug\<close>.
\<close>

datatype event =
    Transport_call string kwargs "exn + response"
  | Decode string bytes
  | Log_debug string

record 'ts world =
  parent_srv :: "'ts server"
  dicts :: "ref \<Rightarrow> kwargs"
  next_ref :: ref
  transport :: 'ts
  trace :: "event list"

text \<open>
  Modelled from the spec: \<open>from_response\<close>, which is \<^verbatim>\<open>ServerResponseError.from_response\<close>
  of the module \<^verbatim>\<open>exceptions\<close>, whose code is not among the sources. It turns the body
  of a failure response into the fields of a domain error and never fails itself
  (section 4.3). It is a parameter of the model, as is \<open>decode\<close>, which is Python's
  \<^verbatim>\<open>bytes.decode\<close>, given the encoding name and the bytes: it raises on an unknown
  encoding and on bytes that are not valid text in the encoding.
\<close>

record env =
  from_response :: "bytes \<Rightarrow> server_error"
  decode :: "string \<Rightarrow> bytes \<Rightarrow> exn + string"

section \<open>The header builder\<close>

text \<open>\<^verbatim>\<open>Endpoint._make_common_headers\<close>, lines 20-28.\<close>

definition make_common_headers :: "string option \<Rightarrow> string option \<Rightarrow> headers" where
  "make_common_headers auth_token' content_type =
     (let headers = fmempty;
          headers = (case auth_token' of
                       None \<Rightarrow> headers
                     | Some t \<Rightarrow> fmupd ''x-tableau-auth'' t headers);
          headers = (case content_type of
                       None \<Rightarrow> headers
                     | Some c \<Rightarrow> fmupd ''content-type'' c headers)
      in headers)"

section \<open>The request gateway\<close>

text \<open>
  The query-parameter decorator \<^verbatim>\<open>request_object\<close>: an object with the method
  \<^verbatim>\<open>apply_query_params(url)\<close>, which returns the rewritten URL.
\<close>

record request_options =
  apply_query_params :: "string \<Rightarrow> string"

text \<open>The dictionary operations the gateway uses: \<^verbatim>\<open>{}\<close>, \<^verbatim>\<open>d.update(other)\<close>, \<^verbatim>\<open>d[k] = v\<close>.\<close>

definition new_dict :: "'ts world \<Rightarrow> ref \<times> 'ts world" where
  "new_dict w =
     (next_ref w,
      w\<lparr>dicts := (dicts w)(next_ref w := fmempty), next_ref := Suc (next_ref w)\<rparr>)"

definition dict_update :: "ref \<Rightarrow> kwargs \<Rightarrow> 'ts world \<Rightarrow> 'ts world" where
  "dict_update d other w = w\<lparr>dicts := (dicts w)(d := dicts w d ++\<^sub>f other)\<rparr>"

definition dict_set :: "ref \<Rightarrow> string \<Rightarrow> pyval \<Rightarrow> 'ts world \<Rightarrow> 'ts world" where
  "dict_set d k v w = w\<lparr>dicts := (dicts w)(d := fmupd k v (dicts w d))\<rparr>"

text \<open>
  \<^verbatim>\<open>Endpoint._make_request\<close>, lines 34-39: the keyword arguments of the transport call.
  \<^verbatim>\<open>parameters or {}\<close> keeps the caller's dictionary unless it is \<^verbatim>\<open>None\<close> or empty; the
  three updates that follow are made in place, on whichever dictionary that is. The
  result is the reference of that dictionary and the world after the updates.
\<close>

definition request_parameters ::
  "string option \<Rightarrow> string option \<Rightarrow> bytes option \<Rightarrow> ref option \<Rightarrow> 'ts world
     \<Rightarrow> ref \<times> 'ts world" where
  "request_parameters auth_token' content_type content' parameters w =
     (let (parameters, w) =
            (case parameters of
               None \<Rightarrow> new_dict w
             | Some d \<Rightarrow> if dicts w d = fmempty then new_dict w else (d, w));
          w = dict_update parameters (dicts w (http_options (parent_srv w))) w;
          w = dict_set parameters ''headers''
                (PyHeaders (make_common_headers auth_token' content_type)) w;
          w = (case content' of
                 None \<Rightarrow> w
               | Some c \<Rightarrow> dict_set parameters ''data'' (PyStr c) w)
      in (parameters, w))"

text \<open>\<^verbatim>\<open>Success_codes\<close>, line 13, and \<^verbatim>\<open>Endpoint._check_status\<close>, lines 51-54.\<close>

definition Success_codes :: "int list" where
  "Success_codes = [200, 201, 204]"

definition check_status :: "env \<Rightarrow> response \<Rightarrow> exn + unit" where
  "check_status E server_response =
     (if status_code server_response \<notin> set Success_codes
      then Inl (ServerResponseError (from_response E (content server_response)))
      else Inr ())"

text \<open>
  \<^verbatim>\<open>Endpoint._make_request\<close>, lines 44-48: the diagnostic log. The encoding is tested for
  truth, so \<^verbatim>\<open>None\<close> and the empty string both skip the branch. The argument of
  \<^verbatim>\<open>logger.debug\<close> is built before the call: the body is decoded whenever the branch is
  taken, and an exception of the decoding leaves the function.
\<close>

definition log_response :: "env \<Rightarrow> string \<Rightarrow> response \<Rightarrow> 'ts world \<Rightarrow> (exn + unit) \<times> 'ts world" where
  "log_response E url server_response w =
     (case encoding server_response of
        None \<Rightarrow> (Inr (), w)
      | Some enc \<Rightarrow>
          if enc = [] then (Inr (), w)
          else
            (let w = w\<lparr>trace := trace w @ [Decode enc (content server_response)]\<rparr>
             in case decode E enc (content server_response) of
                  Inl e \<Rightarrow> (Inl e, w)
                | Inr text \<Rightarrow>
                    (Inr (),
                     w\<lparr>trace := trace w @
                        [Log_debug (''Server response from '' @ url @ '':'' @
                                    [CHR 0x0A, CHR 0x09] @ text)]\<rparr>)))"

text \<open>\<^verbatim>\<open>Endpoint._make_request\<close>, lines 30-49.\<close>

definition make_request ::
  "env \<Rightarrow> 'ts transport_method \<Rightarrow> string \<Rightarrow> bytes option \<Rightarrow> request_options option \<Rightarrow> string option
     \<Rightarrow> string option \<Rightarrow> ref option \<Rightarrow> 'ts world \<Rightarrow> (exn + response) \<times> 'ts world" where
  "make_request E method url content' request_object auth_token' content_type parameters w =
     (let url = (case request_object of
                   None \<Rightarrow> url
                 | Some ro \<Rightarrow> apply_query_params ro url);
          (parameters, w) = request_parameters auth_token' content_type content' parameters w;
          (result, ts) = method url (dicts w parameters) (transport w);
          w = w\<lparr>transport := ts,
                trace := trace w @ [Transport_call url (dicts w parameters) result]\<rparr>
      in case result of
           Inl e \<Rightarrow> (Inl e, w)
         | Inr server_response \<Rightarrow>
             (case check_status E server_response of
                Inl e \<Rightarrow> (Inl e, w)
              | Inr _ \<Rightarrow>
                  (case log_response E url server_response w of
                     (Inl e, w) \<Rightarrow> (Inl e, w)
                   | (Inr _, w) \<Rightarrow> (Inr server_response, w))))"

text \<open>The verbs, lines 56-77. The default of \<^verbatim>\<open>content_type\<close> in lines 67 and 73.\<close>

definition default_content_type :: "string option" where
  "default_content_type = Some ''text/xml''"

definition get_unauthenticated_request ::
  "env \<Rightarrow> string \<Rightarrow> request_options option \<Rightarrow> 'ts world \<Rightarrow> (exn + response) \<times> 'ts world" where
  "get_unauthenticated_request E url request_object w =
     make_request E (get (session (parent_srv w))) url None request_object None None None w"

definition get_request ::
  "env \<Rightarrow> string \<Rightarrow> request_options option \<Rightarrow> ref option \<Rightarrow> 'ts world
     \<Rightarrow> (exn + response) \<times> 'ts world" where
  "get_request E url request_object parameters w =
     make_request E (get (session (parent_srv w))) url None request_object
       (auth_token (parent_srv w)) None parameters w"

text \<open>Line 65 has no \<^verbatim>\<open>return\<close>: the call returns \<^verbatim>\<open>None\<close>.\<close>

definition delete_request ::
  "env \<Rightarrow> string \<Rightarrow> 'ts world \<Rightarrow> (exn + response option) \<times> 'ts world" where
  "delete_request E url w =
     (case make_request E (delete (session (parent_srv w))) url None None
             (auth_token (parent_srv w)) None None w of
        (Inl e, w) \<Rightarrow> (Inl e, w)
      | (Inr _, w) \<Rightarrow> (Inr None, w))"

definition put_request ::
  "env \<Rightarrow> string \<Rightarrow> bytes \<Rightarrow> string option \<Rightarrow> 'ts world \<Rightarrow> (exn + response) \<times> 'ts world" where
  "put_request E url xml_request content_type w =
     make_request E (put (session (parent_srv w))) url (Some xml_request) None
       (auth_token (parent_srv w)) content_type None w"

definition post_request ::
  "env \<Rightarrow> string \<Rightarrow> bytes \<Rightarrow> string option \<Rightarrow> 'ts world \<Rightarrow> (exn + response) \<times> 'ts world" where
  "post_request E url xml_request content_type w =
     make_request E (post (session (parent_srv w))) url (Some xml_request) None
       (auth_token (parent_srv w)) content_type None w"

text \<open>
  A call of one of the five verbs, with its arguments, and what it returns to its
  caller: \<open>Some\<close> of the response, or \<open>None\<close> where the verb returns \<^verbatim>\<open>None\<close>.
\<close>

datatype verb_call =
    Get_unauthenticated_request string "request_options option"
  | Get_request string "request_options option" "ref option"
  | Delete_request string
  | Put_request string bytes "string option"
  | Post_request string bytes "string option"

definition returning :: "(exn + response) \<times> 'w \<Rightarrow> (exn + response option) \<times> 'w" where
  "returning r = (case r of (Inl e, w) \<Rightarrow> (Inl e, w) | (Inr x, w) \<Rightarrow> (Inr (Some x), w))"

fun invoke :: "env \<Rightarrow> verb_call \<Rightarrow> 'ts world \<Rightarrow> (exn + response option) \<times> 'ts world" where
  "invoke E (Get_unauthenticated_request url request_object) w =
     returning (get_unauthenticated_request E url request_object w)"
| "invoke E (Get_request url request_object parameters) w =
     returning (get_request E url request_object parameters w)"
| "invoke E (Delete_request url) w = delete_request E url w"
| "invoke E (Put_request url xml_request content_type) w =
     returning (put_request E url xml_request content_type w)"
| "invoke E (Post_request url xml_request content_type) w =
     returning (post_request E url xml_request content_type w)"

section \<open>The version gate\<close>

text \<open>
  What \<^verbatim>\<open>api\<close> uses of the class \<^verbatim>\<open>Version\<close> that lines 6-9 import: the constructor
  \<^verbatim>\<open>Version(s)\<close>, the comparison \<^verbatim>\<open>a < b\<close>, and \<^verbatim>\<open>str(a)\<close>, which \<^verbatim>\<open>format\<close> calls. The
  constructor and the comparison may raise.
\<close>

record 'v version_class =
  new_version :: "string \<Rightarrow> exn + 'v"
  version_lt :: "'v \<Rightarrow> 'v \<Rightarrow> exn + bool"
  version_str :: "'v \<Rightarrow> string"

text \<open>
  \<^verbatim>\<open>api(version)(func)\<close>, the \<^verbatim>\<open>wrapper\<close> of lines 100-107. \<open>args\<close> stands for the
  arguments \<^verbatim>\<open>*args, **kwargs\<close>; \<^verbatim>\<open>self.parent_srv\<close> is read from the world.
\<close>

definition api ::
  "'v version_class \<Rightarrow> string \<Rightarrow> ('a \<Rightarrow> 'ts world \<Rightarrow> (exn + 'r) \<times> 'ts world)
     \<Rightarrow> 'a \<Rightarrow> 'ts world \<Rightarrow> (exn + 'r) \<times> 'ts world" where
  "api Version version' func args w =
     (case new_version Version (version (parent_srv w)) of
        Inl e \<Rightarrow> (Inl e, w)
      | Inr server_version \<Rightarrow>
          (case new_version Version version' of
             Inl e \<Rightarrow> (Inl e, w)
           | Inr minimum_supported \<Rightarrow>
               (case version_lt Version server_version minimum_supported of
                  Inl e \<Rightarrow> (Inl e, w)
                | Inr True \<Rightarrow>
                    (Inl (EndpointUnavailableError
                       (''This endpoint is not available in API version '' @
                        version_str Version server_version @ ''. Requires '' @
                        version_str Version minimum_supported)), w)
                | Inr False \<Rightarrow> func args w)))"

subsection \<open>The version class\<close>

text \<open>
  Modelled from the spec: the class \<^verbatim>\<open>Version\<close> itself, which lines 6-9 import from
  outside the repository (\<^verbatim>\<open>distutils2\<close>'s \<^verbatim>\<open>NormalizedVersion\<close>, or else \<^verbatim>\<open>distutils\<close>'s
  \<^verbatim>\<open>LooseVersion\<close>). The spec asks for a normalised, ordered representation of a dotted
  version string that compares the dot-separated components numerically and
  normalises malformed strings deterministically (sections 3 and 9). The definitions
  follow the class of the fallback import, which does this:
  \<^item> the string is cut into maximal runs of digits, maximal runs of lower-case
    letters, and the runs of other characters between them; dots separate and are
    dropped; a run of digits becomes an integer, any other run stays a string
    (\<^verbatim>\<open>LooseVersion.parse\<close>);
  \<^item> two versions compare as their component lists do (\<^verbatim>\<open>LooseVersion._cmp\<close>), which
    is Python's order on lists: the first position where they differ decides, a
    proper prefix is smaller, and an integer against a string is a \<^verbatim>\<open>TypeError\<close>;
  \<^item> \<^verbatim>\<open>str\<close> gives back the string the version was made from.
  Characters are bytes: the digits are \<^verbatim>\<open>0\<close> to \<^verbatim>\<open>9\<close>.
\<close>

datatype component = CInt int | CStr string

datatype char_kind = Digit | Lower | Dot | Other

definition kind_of :: "char \<Rightarrow> char_kind" where
  "kind_of c =
     (if c \<in> set ''0123456789'' then Digit
      else if c \<in> set ''abcdefghijklmnopqrstuvwxyz'' then Lower
      else if c = CHR ''.'' then Dot
      else Other)"

text \<open>
  The pieces of \<^verbatim>\<open>component_re.split(vstring)\<close> that are neither empty nor a dot, each
  with the kind of its characters. The first argument is the run being read.
\<close>

fun pieces :: "(char_kind \<times> string) option \<Rightarrow> string \<Rightarrow> (char_kind \<times> string) list" where
  "pieces None [] = []"
| "pieces (Some run) [] = [run]"
| "pieces None (c # cs) =
     (if kind_of c = Dot then pieces None cs
      else pieces (Some (kind_of c, [c])) cs)"
| "pieces (Some (k, x)) (c # cs) =
     (if kind_of c = Dot then (k, x) # pieces None cs
      else if kind_of c = k then pieces (Some (k, x @ [c])) cs
      else (k, x) # pieces (Some (kind_of c, [c])) cs)"

text \<open>\<^verbatim>\<open>int(obj)\<close> on a run of digits.\<close>

definition int_of_digits :: "string \<Rightarrow> int" where
  "int_of_digits x = foldl (\<lambda>n c. 10 * n + (of_char c - 48)) 0 x"

record loose_version =
  vstring :: string
  components :: "component list"

definition LooseVersion_parse :: "string \<Rightarrow> loose_version" where
  "LooseVersion_parse s =
     \<lparr>vstring = s,
      components = map (\<lambda>(k, x). if k = Digit then CInt (int_of_digits x) else CStr x)
                       (pieces None s)\<rparr>"

text \<open>Python's \<^verbatim>\<open><\<close> on strings, on components and on lists of components.\<close>

fun str_lt :: "string \<Rightarrow> string \<Rightarrow> bool" where
  "str_lt [] [] = False"
| "str_lt [] (y # ys) = True"
| "str_lt (x # xs) [] = False"
| "str_lt (x # xs) (y # ys) =
     (if x = y then str_lt xs ys else (of_char x :: nat) < of_char y)"

fun component_lt :: "component \<Rightarrow> component \<Rightarrow> exn + bool" where
  "component_lt (CInt m) (CInt n) = Inr (m < n)"
| "component_lt (CStr x) (CStr y) = Inr (str_lt x y)"
| "component_lt (CInt m) (CStr y) = Inl TypeError"
| "component_lt (CStr x) (CInt n) = Inl TypeError"

fun list_lt :: "component list \<Rightarrow> component list \<Rightarrow> exn + bool" where
  "list_lt [] [] = Inr False"
| "list_lt [] (y # ys) = Inr True"
| "list_lt (x # xs) [] = Inr False"
| "list_lt (x # xs) (y # ys) = (if x = y then list_lt xs ys else component_lt x y)"

text \<open>\<^verbatim>\<open>_cmp\<close>: 0, -1 or 1; falling through all three tests returns \<^verbatim>\<open>None\<close>.\<close>

definition LooseVersion_cmp :: "loose_version \<Rightarrow> loose_version \<Rightarrow> exn + int option" where
  "LooseVersion_cmp a b =
     (if components a = components b then Inr (Some 0)
      else case list_lt (components a) (components b) of
             Inl e \<Rightarrow> Inl e
           | Inr True \<Rightarrow> Inr (Some (- 1))
           | Inr False \<Rightarrow>
               (case list_lt (components b) (components a) of
                  Inl e \<Rightarrow> Inl e
                | Inr True \<Rightarrow> Inr (Some 1)
                | Inr False \<Rightarrow> Inr None))"

text \<open>\<^verbatim>\<open>__lt__\<close>: \<^verbatim>\<open>c < 0\<close> for the result \<^verbatim>\<open>c\<close> of \<^verbatim>\<open>_cmp\<close>.\<close>

definition LooseVersion_lt :: "loose_version \<Rightarrow> loose_version \<Rightarrow> exn + bool" where
  "LooseVersion_lt a b =
     (case LooseVersion_cmp a b of
        Inl e \<Rightarrow> Inl e
      | Inr None \<Rightarrow> Inl TypeError
      | Inr (Some c) \<Rightarrow> Inr (c < 0))"

definition LooseVersion :: "loose_version version_class" where
  "LooseVersion =
     \<lparr>new_version = (\<lambda>s. Inr (LooseVersion_parse s)),
      version_lt = LooseVersion_lt,
      version_str = vstring\<rparr>"

text \<open>
  A dotted version string: \<^verbatim>\<open>'.'.join(cs)\<close> for numerals \<open>cs\<close>, a numeral being a
  non-empty string of digits.
\<close>

fun dot_join :: "string list \<Rightarrow> string" where
  "dot_join [] = []"
| "dot_join [c] = c"
| "dot_join (c # d # cs) = c @ ''.'' @ dot_join (d # cs)"

definition numeral_string :: "string \<Rightarrow> bool" where
  "numeral_string c = (c \<noteq> [] \<and> list_all (\<lambda>x. kind_of x = Digit) c)"

section \<open>Observing a run\<close>

text \<open>
  The value that each transport invocation recorded in a trace was given under the
  key \<open>k\<close> of its keyword arguments, in order.
\<close>

fun sent_values :: "string \<Rightarrow> event list \<Rightarrow> pyval option list" where
  "sent_values k [] = []"
| "sent_values k (Transport_call u b x # evs) = fmlookup b k # sent_values k evs"
| "sent_values k (Decode enc bs # evs) = sent_values k evs"
| "sent_values k (Log_debug m # evs) = sent_values k evs"

text \<open>
  The diagnostic log of lines 46-48 raises nothing for the response: it declares no
  encoding, or its body decodes under the encoding it declares.
\<close>

definition decodable :: "env \<Rightarrow> response \<Rightarrow> bool" where
  "decodable E r =
     (case encoding r of
        None \<Rightarrow> True
      | Some enc \<Rightarrow>
          enc = [] \<or> (case decode E enc (content r) of Inl e \<Rightarrow> False | Inr t \<Rightarrow> True))"

text \<open>
  What lines 42-49 make of the answer \<open>x\<close> of the transport, for the request URL \<open>u\<close>:
  the result of \<^verbatim>\<open>_make_request\<close> and the events that follow the transport call.
\<close>

definition outcome :: "env \<Rightarrow> string \<Rightarrow> exn + response \<Rightarrow> (exn + response) \<times> event list" where
  "outcome E u x =
     (case x of
        Inl e \<Rightarrow> (Inl e, [])
      | Inr r \<Rightarrow>
          if status_code r \<notin> set Success_codes
          then (Inl (ServerResponseError (from_response E (content r))), [])
          else (case encoding r of
                  None \<Rightarrow> (Inr r, [])
                | Some enc \<Rightarrow>
                    if enc = [] then (Inr r, [])
                    else (case decode E enc (content r) of
                            Inl e \<Rightarrow> (Inl e, [Decode enc (content r)])
                          | Inr t \<Rightarrow>
                              (Inr r,
                               [Decode enc (content r),
                                Log_debug (''Server response from '' @ u @ '':'' @
                                           [CHR 0x0A, CHR 0x09] @ t)]))))"

text \<open>
  Example inputs. A transport whose four verbs answer with the response \<open>r\<close> and
  count their invocations; a session context signed in with the token \<^verbatim>\<open>token\<close>,
  whose options are the dictionary 0, with a second dictionary 1 for a caller; a
  decoder that accepts ASCII bytes only; four responses: binary, text, a failure,
  and bytes that are not text in the encoding they declare.
\<close>

definition example_session :: "response \<Rightarrow> nat session" where
  "example_session r =
     \<lparr>get = (\<lambda>url kw n. (Inr r, Suc n)),
      delete = (\<lambda>url kw n. (Inr r, Suc n)),
      put = (\<lambda>url kw n. (Inr r, Suc n)),
      post = (\<lambda>url kw n. (Inr r, Suc n))\<rparr>"

definition example_world :: "string \<Rightarrow> response \<Rightarrow> kwargs \<Rightarrow> kwargs \<Rightarrow> nat world" where
  "example_world v r options extra =
     \<lparr>parent_srv = \<lparr>auth_token = Some ''token'', version = v, http_options = 0,
                     session = example_session r\<rparr>,
      dicts = (\<lambda>d. if d = 0 then options else if d = 1 then extra else fmempty),
      next_ref = 2,
      transport = 0,
      trace = []\<rparr>"

definition example_env :: env where
  "example_env =
     \<lparr>from_response = (\<lambda>body. \<lparr>code = ''400000'', summary = ''Bad Request'', detail = body\<rparr>),
      decode = (\<lambda>enc body.
         if list_all (\<lambda>c. (of_char c :: nat) < 128) body then Inr body
         else Inl (DecodeError enc))\<rparr>"

definition example_binary :: response where
  "example_binary = \<lparr>status_code = 200, content = [CHR 0xFF, CHR 0xFE], encoding = None\<rparr>"

definition example_text :: response where
  "example_text = \<lparr>status_code = 201, content = ''<ok/>'', encoding = Some ''utf-8''\<rparr>"

definition example_not_found :: response where
  "example_not_found =
     \<lparr>status_code = 404, content = ''<error/>'', encoding = Some ''utf-8''\<rparr>"

definition example_broken_text :: response where
  "example_broken_text = \<lparr>status_code = 200, content = [CHR 0xFF], encoding = Some ''utf-8''\<rparr>"

text \<open>
  An operation to wrap: it returns its argument and leaves a record in the trace, which
  counts its invocations.
\<close>

definition example_operation :: "nat \<Rightarrow> nat world \<Rightarrow> (exn + nat) \<times> nat world" where
  "example_operation args w = (Inr args, w\<lparr>trace := trace w @ [Log_debug ''called'']\<rparr>)"

section \<open>Properties of the header builder\<close>

text \<open>
  Claim C4, amended. For every optional auth token and optional content type, the
  header builder returns the mapping that has the authentication header
  \<^verbatim>\<open>x-tableau-auth\<close> exactly when the token is not \<^verbatim>\<open>None\<close>, with the token string as it
  was given; that has the header \<^verbatim>\<open>content-type\<close> exactly when the content type is not
  \<^verbatim>\<open>None\<close>, with that string; that has no other key; and that is empty when both are
  \<^verbatim>\<open>None\<close>. The result is a function of the two inputs alone. Presence is tested with
  \<^verbatim>\<open>is not None\<close> (lines 23 and 25): a token that is the empty string is present.
\<close>

theorem make_common_headers_maps:
  "fmlookup (make_common_headers auth_token' content_type) ''x-tableau-auth'' = auth_token' \<and>
   fmlookup (make_common_headers auth_token' content_type) ''content-type'' = content_type \<and>
   fmdom' (make_common_headers auth_token' content_type)
     \<subseteq> {''x-tableau-auth'', ''content-type''} \<and>
   make_common_headers None None = fmempty"
  by (auto simp: make_common_headers_def Let_def split: option.splits if_splits)

text \<open>
  As C4 is worded, the authentication header is there exactly when the token is
  present and non-empty. With the empty string as token the header is there, and
  carries the empty string.
\<close>

theorem make_common_headers_empty_token_counterexample:
  "\<not> ((fmlookup (make_common_headers (Some '''') None) ''x-tableau-auth'' \<noteq> None)
       = (Some ('''' :: string) \<noteq> None \<and> the (Some ('''' :: string)) \<noteq> ''''))"
  by (simp add: make_common_headers_def)

theorem make_common_headers_maps_witness:
  "fmlookup (make_common_headers (Some '''') (Some ''text/xml'')) ''x-tableau-auth'' = Some '''' \<and>
   fmlookup (make_common_headers (Some '''') (Some ''text/xml'')) ''content-type''
     = Some ''text/xml''"
  using make_common_headers_maps [of "Some ''''" "Some ''text/xml''"] by simp

section \<open>Properties of the request gateway\<close>

lemmas dict_defs = request_parameters_def new_dict_def dict_update_def dict_set_def Let_def

lemma request_parameters_frame:
  assumes "request_parameters a ct c ps w = (p, w1)"
  shows "parent_srv w1 = parent_srv w" and "transport w1 = transport w"
    and "trace w1 = trace w"
  using assms by (auto simp: dict_defs split: option.splits if_splits prod.splits)

lemma request_parameters_ref:
  assumes "request_parameters a ct c ps w = (p, w1)"
  shows "p = (case ps of
                None \<Rightarrow> next_ref w
              | Some d \<Rightarrow> if dicts w d = fmempty then next_ref w else d)"
  using assms by (auto simp: dict_defs split: option.splits if_splits prod.splits)

lemma request_parameters_others:
  assumes "request_parameters a ct c ps w = (p, w1)" and "d \<noteq> p"
  shows "dicts w1 d = dicts w d"
  using assms by (auto simp: dict_defs split: option.splits if_splits prod.splits)

lemma request_parameters_headers:
  assumes "request_parameters a ct c ps w = (p, w1)"
  shows "fmlookup (dicts w1 p) ''headers'' = Some (PyHeaders (make_common_headers a ct))"
  using assms by (auto simp: dict_defs split: option.splits if_splits prod.splits)

lemma request_parameters_option:
  assumes "request_parameters a ct c ps w = (p, w1)"
      and "http_options (parent_srv w) < next_ref w"
      and "fmlookup (dicts w (http_options (parent_srv w))) k = Some v"
      and "k \<noteq> ''headers''" and "c = None \<or> k \<noteq> ''data''"
  shows "fmlookup (dicts w1 p) k = Some v"
  using assms
  by (auto simp: dict_defs fmlookup_dom_iff split: option.splits if_splits prod.splits)

lemma make_request_eq:
  assumes rp: "request_parameters a ct c ps w = (p, w1)"
      and u: "u = (case ro of None \<Rightarrow> url | Some r \<Rightarrow> apply_query_params r url)"
      and m: "meth u (dicts w1 p) (transport w) = (x, ts)"
  shows "make_request E meth url c ro a ct ps w =
           (fst (outcome E u x),
            w1\<lparr>transport := ts,
               trace := trace w @ Transport_call u (dicts w1 p) x # snd (outcome E u x)\<rparr>)"
  using m request_parameters_frame [OF rp]
  by (auto simp: make_request_def rp u [symmetric] outcome_def check_status_def
        log_response_def Let_def split: sum.splits option.splits)

lemma make_request_run:
  assumes "make_request E meth url c ro a ct ps w = (res, w')"
  obtains p w1 u x ts where
    "request_parameters a ct c ps w = (p, w1)"
    "meth u (dicts w1 p) (transport w) = (x, ts)"
    "res = fst (outcome E u x)"
    "w' = w1\<lparr>transport := ts,
              trace := trace w @ Transport_call u (dicts w1 p) x # snd (outcome E u x)\<rparr>"
proof -
  obtain p w1 where rp: "request_parameters a ct c ps w = (p, w1)"
    by (cases "request_parameters a ct c ps w")
  define u where "u = (case ro of None \<Rightarrow> url | Some r \<Rightarrow> apply_query_params r url)"
  obtain x ts where m: "meth u (dicts w1 p) (transport w) = (x, ts)"
    by (cases "meth u (dicts w1 p) (transport w)")
  from make_request_eq [where meth = meth and E = E, OF rp u_def m] assms that [OF rp m]
  show thesis
    by simp
qed

lemma outcome_events:
  "snd (outcome E u x) = [] \<or>
   (\<exists>enc bs. snd (outcome E u x) = [Decode enc bs]) \<or>
   (\<exists>enc bs m. snd (outcome E u x) = [Decode enc bs, Log_debug m])"
  by (auto simp: outcome_def split: sum.splits option.splits)

lemma sent_values_append: "sent_values k (xs @ ys) = sent_values k xs @ sent_values k ys"
  by (induction k xs rule: sent_values.induct) auto

lemma sent_values_outcome: "sent_values k (snd (outcome E u x)) = []"
  using outcome_events [of E u x] by auto

lemma invoke_run:
  assumes "invoke E c w = (res, w')"
  obtains meth url body ro a ct r0 where
    "make_request E meth url body ro a ct
       (case c of Get_request _ _ ps \<Rightarrow> ps | _ \<Rightarrow> None) w = (r0, w')"
    "res = (case r0 of
              Inl e \<Rightarrow> Inl e
            | Inr r \<Rightarrow> Inr (case c of Delete_request _ \<Rightarrow> None | _ \<Rightarrow> Some r))"
proof (cases c)
  case (Get_unauthenticated_request url ro)
  with assms that [of "get (session (parent_srv w))" url None ro None None] show thesis
    by (auto simp: get_unauthenticated_request_def returning_def split: prod.splits sum.splits)
next
  case (Get_request url ro ps)
  with assms that [of "get (session (parent_srv w))" url None ro "auth_token (parent_srv w)" None]
  show thesis
    by (auto simp: get_request_def returning_def split: prod.splits sum.splits)
next
  case (Delete_request url)
  with assms
    that [of "delete (session (parent_srv w))" url None None "auth_token (parent_srv w)" None]
  show thesis
    by (auto simp: delete_request_def split: prod.splits sum.splits)
next
  case (Put_request url body ct)
  with assms
    that [of "put (session (parent_srv w))" url "Some body" None "auth_token (parent_srv w)" ct]
  show thesis
    by (auto simp: put_request_def returning_def split: prod.splits sum.splits)
next
  case (Post_request url body ct)
  with assms
    that [of "post (session (parent_srv w))" url "Some body" None "auth_token (parent_srv w)" ct]
  show thesis
    by (auto simp: post_request_def returning_def split: prod.splits sum.splits)
qed

lemma outcome_success:
  assumes "status_code r \<in> set Success_codes" and "decodable E r"
  shows "fst (outcome E u (Inr r)) = Inr r"
  using assms by (auto simp: outcome_def decodable_def split: option.splits sum.splits)

lemma outcome_failure:
  assumes "status_code r \<notin> set Success_codes"
  shows "outcome E u (Inr r) = (Inl (ServerResponseError (from_response E (content r))), [])"
  using assms by (simp add: outcome_def)

lemmas run_defs =
  make_request_def request_parameters_def new_dict_def dict_update_def dict_set_def
  check_status_def log_response_def Success_codes_def make_common_headers_def Let_def
  example_session_def example_world_def example_env_def
  example_binary_def example_text_def example_not_found_def example_broken_text_def

lemmas verb_defs =
  get_unauthenticated_request_def get_request_def delete_request_def put_request_def
  post_request_def returning_def default_content_type_def

subsection \<open>The keyword arguments of the transport call\<close>

text \<open>
  Claim C9. For every dispatch, the transport is invoked once, and the entry
  \<^verbatim>\<open>headers\<close> of the keyword arguments it is given is the mapping that the header
  builder makes from the auth token and the content type of that dispatch. This
  holds whatever the caller's extra parameters and the session's options contain: a
  \<^verbatim>\<open>headers\<close> entry of either is overwritten (line 36 follows line 35).
\<close>

theorem transport_headers_computed:
  assumes "make_request E method url content' request_object auth_token' content_type parameters w
             = (res, w')"
  shows "sent_values ''headers'' (trace w') =
           sent_values ''headers'' (trace w) @
           [Some (PyHeaders (make_common_headers auth_token' content_type))]"
proof -
  from assms obtain p w1 u x ts where
    rp: "request_parameters auth_token' content_type content' parameters w = (p, w1)" and
    w': "w' = w1\<lparr>transport := ts,
              trace := trace w @ Transport_call u (dicts w1 p) x # snd (outcome E u x)\<rparr>"
    by (rule make_request_run)
  show ?thesis
    by (simp add: w' sent_values_append sent_values_outcome request_parameters_headers [OF rp])
qed

text \<open>
  The caller's parameters and the session's options both carry an entry \<^verbatim>\<open>headers\<close>;
  the transport gets neither.
\<close>

theorem transport_headers_computed_witness:
  "fmlookup (fmupd ''headers'' (PyHeaders (fmupd ''user-agent'' ''tsc'' fmempty)) fmempty)
     ''headers'' = Some (PyHeaders (fmupd ''user-agent'' ''tsc'' fmempty)) \<and>
   sent_values ''headers''
     (trace (snd (make_request example_env (get (example_session example_text)) ''/sites'' None
        None (Some ''token'') None (Some 1)
        (example_world ''2.9'' example_text
           (fmupd ''headers'' (PyHeaders (fmupd ''user-agent'' ''tsc'' fmempty)) fmempty)
           (fmupd ''headers'' (PyHeaders (fmupd ''accept'' ''json'' fmempty)) fmempty)))))
     = [Some (PyHeaders (fmupd ''x-tableau-auth'' ''token'' fmempty))]"
  using transport_headers_computed [OF surjective_pairing, of example_env
      "get (example_session example_text)" "''/sites''" None None "Some ''token''" None "Some 1"
      "example_world ''2.9'' example_text
         (fmupd ''headers'' (PyHeaders (fmupd ''user-agent'' ''tsc'' fmempty)) fmempty)
         (fmupd ''headers'' (PyHeaders (fmupd ''accept'' ''json'' fmempty)) fmempty)"]
  by (simp add: example_world_def make_common_headers_def)

text \<open>
  Claim C3, amended. For every dispatch and every key that the session's options
  define, other than \<^verbatim>\<open>headers\<close> and, when the request has a body, other than \<^verbatim>\<open>data\<close>:
  the keyword arguments given to the transport carry the session's value for that
  key, whether or not the caller's extra parameters define the key too. So the
  session's value wins on every duplicate key but those two, which lines 36 and 39
  set afterwards. The session's options are an existing dictionary
  (\<open>http_options (parent_srv w) < next_ref w\<close>).
\<close>

theorem session_options_win:
  assumes "make_request E method url content' request_object auth_token' content_type parameters w
             = (res, w')"
      and "http_options (parent_srv w) < next_ref w"
      and "fmlookup (dicts w (http_options (parent_srv w))) k = Some v"
      and "k \<noteq> ''headers''"
      and "content' = None \<or> k \<noteq> ''data''"
  shows "sent_values k (trace w') = sent_values k (trace w) @ [Some v]"
proof -
  from assms(1) obtain p w1 u x ts where
    rp: "request_parameters auth_token' content_type content' parameters w = (p, w1)" and
    w': "w' = w1\<lparr>transport := ts,
              trace := trace w @ Transport_call u (dicts w1 p) x # snd (outcome E u x)\<rparr>"
    by (rule make_request_run)
  show ?thesis
    by (simp add: w' sent_values_append sent_values_outcome
          request_parameters_option [OF rp assms(2-5)])
qed

text \<open>The caller asks for a timeout of 5, the session for 30: the transport gets 30.\<close>

theorem session_options_win_witness:
  "fmlookup (fmupd ''timeout'' (PyInt 5) fmempty) ''timeout'' = Some (PyInt 5) \<and>
   fmlookup (fmupd ''timeout'' (PyInt 30) fmempty) ''timeout'' = Some (PyInt 30) \<and>
   sent_values ''timeout''
     (trace (snd (make_request example_env (get (example_session example_text)) ''/sites'' None
        None (Some ''token'') None (Some 1)
        (example_world ''2.9'' example_text (fmupd ''timeout'' (PyInt 30) fmempty)
           (fmupd ''timeout'' (PyInt 5) fmempty)))))
     = [Some (PyInt 30)]"
proof -
  let ?w = "example_world ''2.9'' example_text (fmupd ''timeout'' (PyInt 30) fmempty)
              (fmupd ''timeout'' (PyInt 5) fmempty)"
  have a: "http_options (parent_srv ?w) < next_ref ?w"
    by (simp add: example_world_def)
  have b: "fmlookup (dicts ?w (http_options (parent_srv ?w))) ''timeout'' = Some (PyInt 30)"
    by (simp add: example_world_def)
  have c: "''timeout'' \<noteq> ''headers''"
    by simp
  have d: "(None :: bytes option) = None \<or> ''timeout'' \<noteq> ''data''"
    by simp
  from session_options_win [OF surjective_pairing a b c d, of example_env
      "get (example_session example_text)" "''/sites''" None "Some ''token''" None "Some 1"]
  show ?thesis
    by (simp add: example_world_def)
qed

text \<open>
  As C3 is worded, the session's value wins on every duplicate key. On the key
  \<^verbatim>\<open>headers\<close>, defined by the caller and by the session, the transport gets the
  computed headers, not the session's value.
\<close>

theorem session_headers_counterexample:
  "fmlookup (dicts (example_world ''2.9'' example_text
        (fmupd ''headers'' (PyHeaders (fmupd ''user-agent'' ''tsc'' fmempty)) fmempty)
        (fmupd ''headers'' (PyHeaders (fmupd ''accept'' ''json'' fmempty)) fmempty)) 1)
     ''headers'' = Some (PyHeaders (fmupd ''accept'' ''json'' fmempty)) \<and>
   fmlookup (dicts (example_world ''2.9'' example_text
        (fmupd ''headers'' (PyHeaders (fmupd ''user-agent'' ''tsc'' fmempty)) fmempty)
        (fmupd ''headers'' (PyHeaders (fmupd ''accept'' ''json'' fmempty)) fmempty)) 0)
     ''headers'' = Some (PyHeaders (fmupd ''user-agent'' ''tsc'' fmempty)) \<and>
   sent_values ''headers''
     (trace (snd (make_request example_env (get (example_session example_text)) ''/sites'' None
        None (Some ''token'') None (Some 1)
        (example_world ''2.9'' example_text
           (fmupd ''headers'' (PyHeaders (fmupd ''user-agent'' ''tsc'' fmempty)) fmempty)
           (fmupd ''headers'' (PyHeaders (fmupd ''accept'' ''json'' fmempty)) fmempty)))))
     \<noteq> [Some (PyHeaders (fmupd ''user-agent'' ''tsc'' fmempty))]"
proof -
  have "fmlookup (fmupd ''x-tableau-auth'' ''token'' fmempty) ''user-agent''
          \<noteq> fmlookup (fmupd ''user-agent'' ''tsc'' (fmempty :: headers)) ''user-agent''"
    by simp
  then have "fmupd ''x-tableau-auth'' ''token'' fmempty
               \<noteq> fmupd ''user-agent'' ''tsc'' (fmempty :: headers)"
    by metis
  then show ?thesis
    by (simp add: run_defs)
qed

subsection \<open>The status check and the diagnostic log\<close>

text \<open>
  Claim C2, amended. For every call of a verb in which the transport answers with a
  response: the status check passes exactly when the status code is 200, 201 or 204;
  if the status code is not 200, 201 or 204, the call raises the
  \<^verbatim>\<open>ServerResponseError\<close> made from the body of the response, whatever the verb; if it
  is one of the three and the diagnostic log raises nothing (no encoding is
  declared, or the body decodes under it), the call returns the response unchanged,
  except \<^verbatim>\<open>delete_request\<close>, which returns \<^verbatim>\<open>None\<close>.
\<close>

theorem status_code_decides:
  assumes "invoke E c w = (res, w')"
      and "trace w' = trace w @ Transport_call u b (Inr r) # evs"
  shows "(check_status E r = Inr ()) = (status_code r \<in> {200, 201, 204}) \<and>
         (status_code r \<notin> {200, 201, 204} \<longrightarrow>
            res = Inl (ServerResponseError (from_response E (content r)))) \<and>
         (status_code r \<in> {200, 201, 204} \<longrightarrow> decodable E r \<longrightarrow>
            res = Inr (case c of Delete_request _ \<Rightarrow> None | _ \<Rightarrow> Some r))"
proof -
  from assms(1) obtain meth url body ro a ct r0 where
    mr: "make_request E meth url body ro a ct
           (case c of Get_request _ _ ps \<Rightarrow> ps | _ \<Rightarrow> None) w = (r0, w')" and
    res: "res = (case r0 of
                   Inl e \<Rightarrow> Inl e
                 | Inr r \<Rightarrow> Inr (case c of Delete_request _ \<Rightarrow> None | _ \<Rightarrow> Some r))"
    by (rule invoke_run)
  from mr obtain p w1 u' x ts where
    r0: "r0 = fst (outcome E u' x)" and
    w': "w' = w1\<lparr>transport := ts,
              trace := trace w @ Transport_call u' (dicts w1 p) x # snd (outcome E u' x)\<rparr>"
    by (rule make_request_run)
  from w' assms(2) have x: "x = Inr r"
    by auto
  have s: "set Success_codes = {200, 201, 204}"
    by (simp add: Success_codes_def)
  show ?thesis
    using outcome_success [of r E u'] outcome_failure [of r E u']
    by (auto simp: res r0 x s check_status_def)
qed

text \<open>A \<^verbatim>\<open>put_request\<close> answered with 201, and a \<^verbatim>\<open>get_request\<close> answered with 404.\<close>

theorem status_code_decides_witness:
  "status_code example_text \<in> {200, 201, 204} \<and>
   decodable example_env example_text \<and>
   fst (invoke example_env (Put_request ''/sites/1'' ''<site/>'' default_content_type)
          (example_world ''2.9'' example_text fmempty fmempty)) = Inr (Some example_text) \<and>
   status_code example_not_found \<notin> {200, 201, 204} \<and>
   fst (invoke example_env (Get_request ''/sites'' None None)
          (example_world ''2.9'' example_not_found fmempty fmempty))
     = Inl (ServerResponseError
              \<lparr>code = ''400000'', summary = ''Bad Request'', detail = ''<error/>''\<rparr>)"
proof -
  let ?w = "example_world ''2.9'' example_text fmempty fmempty"
  let ?X = "invoke example_env (Put_request ''/sites/1'' ''<site/>'' default_content_type) ?w"
  let ?v = "example_world ''2.9'' example_not_found fmempty fmempty"
  let ?Y = "invoke example_env (Get_request ''/sites'' None None) ?v"
  have t: "trace (snd ?X) = trace ?w @
             Transport_call ''/sites/1''
               (fmupd ''data'' (PyStr ''<site/>'')
                 (fmupd ''headers''
                    (PyHeaders (fmupd ''content-type'' ''text/xml''
                       (fmupd ''x-tableau-auth'' ''token'' fmempty))) fmempty))
               (Inr example_text) #
             [Decode ''utf-8'' ''<ok/>'',
              Log_debug (''Server response from /sites/1:'' @ [CHR 0x0A, CHR 0x09] @ ''<ok/>'')]"
    by (simp add: run_defs verb_defs)
  have s: "status_code example_text \<in> {200, 201, 204}"
    by (simp add: example_text_def)
  have d: "decodable example_env example_text"
    by (simp add: decodable_def example_env_def example_text_def)
  have t': "trace (snd ?Y) = trace ?v @
             Transport_call ''/sites''
               (fmupd ''headers'' (PyHeaders (fmupd ''x-tableau-auth'' ''token'' fmempty)) fmempty)
               (Inr example_not_found) # []"
    by (simp add: run_defs verb_defs)
  have s': "status_code example_not_found \<notin> {200, 201, 204}"
    by (simp add: example_not_found_def)
  have f: "from_response example_env (content example_not_found)
             = \<lparr>code = ''400000'', summary = ''Bad Request'', detail = ''<error/>''\<rparr>"
    by (simp add: example_env_def example_not_found_def)
  from status_code_decides [OF surjective_pairing t, THEN conjunct2, THEN conjunct2,
      rule_format, OF s d]
    status_code_decides [OF surjective_pairing t', THEN conjunct2, THEN conjunct1,
      rule_format, OF s'] s d s'
  show ?thesis
    by (simp add: f)
qed

text \<open>
  As C2 is worded, a status code of 200, 201 or 204 means that no error is raised and
  that the response is returned to the caller, for every verb. \<^verbatim>\<open>delete_request\<close>
  answered with 201 returns \<^verbatim>\<open>None\<close>; \<^verbatim>\<open>get_request\<close> answered with 200 and a body that is
  not text in the declared encoding raises the error of the decoding.
\<close>

theorem success_status_counterexample:
  "status_code example_text \<in> {200, 201, 204} \<and>
   fst (invoke example_env (Delete_request ''/sites/1'')
          (example_world ''2.9'' example_text fmempty fmempty)) = Inr None \<and>
   status_code example_broken_text \<in> {200, 201, 204} \<and>
   fst (invoke example_env (Get_request ''/sites'' None None)
          (example_world ''2.9'' example_broken_text fmempty fmempty))
     = Inl (DecodeError ''utf-8'')"
  by (simp add: run_defs verb_defs)

text \<open>
  Claim C10. Whenever the transport answers with a response whose status code is
  outside the success set, the call raises the \<^verbatim>\<open>ServerResponseError\<close> and nothing
  follows the transport call: the body is not decoded and no log record is made,
  whatever encoding the response declares.
\<close>

theorem failure_not_logged:
  assumes "make_request E method url content' request_object auth_token' content_type parameters w
             = (res, w')"
      and "trace w' = trace w @ Transport_call u b (Inr r) # evs"
      and "status_code r \<notin> set Success_codes"
  shows "res = Inl (ServerResponseError (from_response E (content r))) \<and> evs = []"
proof -
  from assms(1) obtain p w1 u' x ts where
    res: "res = fst (outcome E u' x)" and
    w': "w' = w1\<lparr>transport := ts,
              trace := trace w @ Transport_call u' (dicts w1 p) x # snd (outcome E u' x)\<rparr>"
    by (rule make_request_run)
  from w' assms(2) have "x = Inr r \<and> evs = snd (outcome E u' x)"
    by auto
  with res assms(3) show ?thesis
    by (auto simp: outcome_def)
qed

text \<open>A response with status 404 that declares \<^verbatim>\<open>utf-8\<close>: no decoding, no log record.\<close>

theorem failure_not_logged_witness:
  "status_code example_not_found \<notin> set Success_codes \<and>
   encoding example_not_found = Some ''utf-8'' \<and>
   fst (make_request example_env (get (example_session example_not_found)) ''/sites'' None None
          (Some ''token'') None None (example_world ''2.9'' example_not_found fmempty fmempty))
     = Inl (ServerResponseError
              \<lparr>code = ''400000'', summary = ''Bad Request'', detail = ''<error/>''\<rparr>) \<and>
   trace (snd (make_request example_env (get (example_session example_not_found)) ''/sites'' None
          None (Some ''token'') None None
          (example_world ''2.9'' example_not_found fmempty fmempty)))
     = [Transport_call ''/sites''
          (fmupd ''headers'' (PyHeaders (fmupd ''x-tableau-auth'' ''token'' fmempty)) fmempty)
          (Inr example_not_found)]"
proof -
  let ?w = "example_world ''2.9'' example_not_found fmempty fmempty"
  let ?X = "make_request example_env (get (example_session example_not_found)) ''/sites'' None
              None (Some ''token'') None None ?w"
  have t: "trace (snd ?X) = trace ?w @
             Transport_call ''/sites''
               (fmupd ''headers'' (PyHeaders (fmupd ''x-tableau-auth'' ''token'' fmempty)) fmempty)
               (Inr example_not_found) # []"
    by (simp add: run_defs)
  have s: "status_code example_not_found \<notin> set Success_codes"
    by (simp add: example_not_found_def Success_codes_def)
  from failure_not_logged [OF surjective_pairing t s] s t show ?thesis
    by (simp add: example_world_def example_not_found_def example_env_def)
qed

text \<open>
  Claim C8. Whenever the transport answers with a response that declares no encoding
  (\<^verbatim>\<open>None\<close>, or the empty string), nothing follows the transport call: no decoding is
  executed and no log record is made, whatever the body is and whatever the decoder
  would do with it; and when the status code of the response is in the success set,
  the call raises nothing and returns the response. So decoding and logging happen
  only for a response that declares an encoding.
\<close>

theorem undeclared_encoding_not_decoded:
  assumes "make_request E method url content' request_object auth_token' content_type parameters w
             = (res, w')"
      and "trace w' = trace w @ Transport_call u b (Inr r) # evs"
      and "encoding r = None \<or> encoding r = Some ''''"
  shows "evs = [] \<and> (status_code r \<in> set Success_codes \<longrightarrow> res = Inr r)"
proof -
  from assms(1) obtain p w1 u' x ts where
    res: "res = fst (outcome E u' x)" and
    w': "w' = w1\<lparr>transport := ts,
              trace := trace w @ Transport_call u' (dicts w1 p) x # snd (outcome E u' x)\<rparr>"
    by (rule make_request_run)
  from w' assms(2) have "x = Inr r \<and> evs = snd (outcome E u' x)"
    by auto
  with res assms(3) show ?thesis
    by (auto simp: outcome_def)
qed

text \<open>
  A body of two bytes that the decoder rejects, in a response that declares no
  encoding.
\<close>

theorem undeclared_encoding_not_decoded_witness:
  "status_code example_binary \<in> set Success_codes \<and>
   encoding example_binary = None \<and>
   decode example_env ''utf-8'' (content example_binary) = Inl (DecodeError ''utf-8'') \<and>
   fst (make_request example_env (get (example_session example_binary)) ''/sites'' None None
          (Some ''token'') None None (example_world ''2.9'' example_binary fmempty fmempty))
     = Inr example_binary \<and>
   trace (snd (make_request example_env (get (example_session example_binary)) ''/sites'' None
          None (Some ''token'') None None (example_world ''2.9'' example_binary fmempty fmempty)))
     = [Transport_call ''/sites''
          (fmupd ''headers'' (PyHeaders (fmupd ''x-tableau-auth'' ''token'' fmempty)) fmempty)
          (Inr example_binary)]"
proof -
  let ?w = "example_world ''2.9'' example_binary fmempty fmempty"
  let ?X = "make_request example_env (get (example_session example_binary)) ''/sites'' None None
              (Some ''token'') None None ?w"
  have t: "trace (snd ?X) = trace ?w @
             Transport_call ''/sites''
               (fmupd ''headers'' (PyHeaders (fmupd ''x-tableau-auth'' ''token'' fmempty)) fmempty)
               (Inr example_binary) # []"
    by (simp add: run_defs)
  have s: "status_code example_binary \<in> set Success_codes"
    by (simp add: example_binary_def Success_codes_def)
  have e: "encoding example_binary = None \<or> encoding example_binary = Some ''''"
    by (simp add: example_binary_def)
  have d: "decode example_env ''utf-8'' (content example_binary) = Inl (DecodeError ''utf-8'')"
    by (simp add: example_env_def example_binary_def)
  from undeclared_encoding_not_decoded [OF surjective_pairing t e] s t d show ?thesis
    by (simp add: example_world_def example_binary_def)
qed

subsection \<open>What the caller gets back and what is changed\<close>

text \<open>
  Claim C7. For every URL, \<^verbatim>\<open>delete_request\<close> returns no payload: whenever it returns,
  it returns \<^verbatim>\<open>None\<close>; and it does return \<^verbatim>\<open>None\<close> whenever the transport answers with a
  response whose status code is in the success set and the diagnostic log raises
  nothing, whatever body the response carries.
\<close>

theorem delete_request_returns_none:
  assumes "delete_request E url w = (res, w')"
  shows "(\<forall>x. res = Inr x \<longrightarrow> x = None) \<and>
         (\<forall>u b r evs. trace w' = trace w @ Transport_call u b (Inr r) # evs \<longrightarrow>
            status_code r \<in> set Success_codes \<longrightarrow> decodable E r \<longrightarrow> res = Inr None)"
proof -
  from assms obtain r0 where
    mr: "make_request E (delete (session (parent_srv w))) url None None
           (auth_token (parent_srv w)) None None w = (r0, w')" and
    res: "res = (case r0 of Inl e \<Rightarrow> Inl e | Inr r \<Rightarrow> Inr None)"
    by (auto simp: delete_request_def split: prod.splits sum.splits)
  from mr obtain p w1 u' x ts where
    r0: "r0 = fst (outcome E u' x)" and
    w': "w' = w1\<lparr>transport := ts,
              trace := trace w @ Transport_call u' (dicts w1 p) x # snd (outcome E u' x)\<rparr>"
    by (rule make_request_run)
  have "res = Inr None"
    if "trace w' = trace w @ Transport_call u b (Inr r) # evs"
      and "status_code r \<in> set Success_codes" and "decodable E r" for u b r evs
  proof -
    from w' that(1) have "x = Inr r"
      by auto
    with that(2,3) show ?thesis
      by (simp add: res r0 outcome_success)
  qed
  moreover have "\<forall>x. res = Inr x \<longrightarrow> x = None"
    by (auto simp: res split: sum.splits)
  ultimately show ?thesis
    by blast
qed

text \<open>The response carries the body \<^verbatim>\<open><ok/>\<close>; the caller gets \<^verbatim>\<open>None\<close>.\<close>

theorem delete_request_returns_none_witness:
  "status_code example_text \<in> set Success_codes \<and>
   decodable example_env example_text \<and>
   content example_text = ''<ok/>'' \<and>
   fst (delete_request example_env ''/sites/1''
          (example_world ''2.9'' example_text fmempty fmempty)) = Inr None"
proof -
  let ?w = "example_world ''2.9'' example_text fmempty fmempty"
  let ?X = "delete_request example_env ''/sites/1'' ?w"
  have t: "trace (snd ?X) = trace ?w @
             Transport_call ''/sites/1''
               (fmupd ''headers'' (PyHeaders (fmupd ''x-tableau-auth'' ''token'' fmempty)) fmempty)
               (Inr example_text) #
             [Decode ''utf-8'' ''<ok/>'',
              Log_debug (''Server response from /sites/1:'' @ [CHR 0x0A, CHR 0x09] @ ''<ok/>'')]"
    by (simp add: run_defs verb_defs)
  have s: "status_code example_text \<in> set Success_codes"
    by (simp add: example_text_def Success_codes_def)
  have d: "decodable example_env example_text"
    by (simp add: decodable_def example_env_def example_text_def)
  have c: "content example_text = ''<ok/>''"
    by (simp add: example_text_def)
  from delete_request_returns_none [OF surjective_pairing, THEN conjunct2, rule_format,
      OF t s d] s d c
  show ?thesis
    by simp
qed

text \<open>
  Claim C6, amended. For every call of a verb: the attributes of the session context
  are unchanged; the transport is invoked exactly once, followed by at most one
  decoding and at most one log record; and every dictionary that existed before the
  call is unchanged, except a non-empty dictionary of extra parameters that the
  caller passes to \<^verbatim>\<open>get_request\<close>: that one is updated in place and ends as the keyword
  arguments the transport was given. In particular the session's options are
  unchanged unless they are that very dictionary.
\<close>

theorem gateway_frame:
  assumes "invoke E c w = (res, w')"
  shows "parent_srv w' = parent_srv w \<and>
         (\<exists>u b x evs.
            trace w' = trace w @ Transport_call u b x # evs \<and>
            (evs = [] \<or> (\<exists>enc bs. evs = [Decode enc bs]) \<or>
             (\<exists>enc bs m. evs = [Decode enc bs, Log_debug m])) \<and>
            (\<forall>d. d < next_ref w \<longrightarrow>
               dicts w' d =
                 (if (\<exists>url ro. c = Get_request url ro (Some d)) \<and> dicts w d \<noteq> fmempty
                  then b else dicts w d)))"
proof -
  let ?ps = "case c of Get_request _ _ ps \<Rightarrow> ps | _ \<Rightarrow> None"
  from assms obtain meth url body ro a ct r0 where
    mr: "make_request E meth url body ro a ct ?ps w = (r0, w')"
    by (rule invoke_run)
  from mr obtain p w1 u x ts where
    rp: "request_parameters a ct body ?ps w = (p, w1)" and
    w': "w' = w1\<lparr>transport := ts,
              trace := trace w @ Transport_call u (dicts w1 p) x # snd (outcome E u x)\<rparr>"
    by (rule make_request_run)
  note p = request_parameters_ref [OF rp]
  have srv: "parent_srv w' = parent_srv w"
    by (simp add: w' request_parameters_frame [OF rp])
  have tr: "trace w' = trace w @ Transport_call u (dicts w1 p) x # snd (outcome E u x)"
    by (simp add: w')
  have dc: "dicts w' d =
              (if (\<exists>url ro. c = Get_request url ro (Some d)) \<and> dicts w d \<noteq> fmempty
               then dicts w1 p else dicts w d)"
    if d: "d < next_ref w" for d
  proof (cases "d = p")
    case True
    with d p have "?ps = Some d \<and> dicts w d \<noteq> fmempty"
      by (auto split: option.splits if_splits)
    then have "(\<exists>url ro. c = Get_request url ro (Some d)) \<and> dicts w d \<noteq> fmempty"
      by (cases c) auto
    with True show ?thesis
      by (simp add: w')
  next
    case False
    have "\<not> ((\<exists>url ro. c = Get_request url ro (Some d)) \<and> dicts w d \<noteq> fmempty)"
      using False p by auto
    moreover have "dicts w' d = dicts w d"
      using False by (simp add: w' request_parameters_others [OF rp])
    ultimately show ?thesis
      by presburger
  qed
  from srv tr outcome_events [of E u x] dc show ?thesis
    by blast
qed

text \<open>
  The session's options, dictionary 0, are unchanged by a \<^verbatim>\<open>get_request\<close> with the extra
  parameters of dictionary 1.
\<close>

theorem gateway_frame_witness:
  "(0 :: nat) < next_ref (example_world ''2.9'' example_text
                   (fmupd ''verify'' (PyBool False) fmempty)
                   (fmupd ''stream'' (PyBool True) fmempty)) \<and>
   parent_srv (snd (invoke example_env (Get_request ''/sites'' None (Some 1))
                      (example_world ''2.9'' example_text
                         (fmupd ''verify'' (PyBool False) fmempty)
                         (fmupd ''stream'' (PyBool True) fmempty))))
     = parent_srv (example_world ''2.9'' example_text (fmupd ''verify'' (PyBool False) fmempty)
                     (fmupd ''stream'' (PyBool True) fmempty)) \<and>
   dicts (snd (invoke example_env (Get_request ''/sites'' None (Some 1))
                 (example_world ''2.9'' example_text (fmupd ''verify'' (PyBool False) fmempty)
                    (fmupd ''stream'' (PyBool True) fmempty)))) 0
     = fmupd ''verify'' (PyBool False) fmempty"
proof -
  let ?w = "example_world ''2.9'' example_text (fmupd ''verify'' (PyBool False) fmempty)
              (fmupd ''stream'' (PyBool True) fmempty)"
  have n: "(0 :: nat) < next_ref ?w"
    by (simp add: example_world_def)
  have o: "dicts ?w 0 = fmupd ''verify'' (PyBool False) fmempty"
    by (simp add: example_world_def)
  from gateway_frame [OF surjective_pairing, of example_env
      "Get_request ''/sites'' None (Some 1)" ?w] n
  have "parent_srv (snd (invoke example_env (Get_request ''/sites'' None (Some 1)) ?w))
          = parent_srv ?w \<and>
        dicts (snd (invoke example_env (Get_request ''/sites'' None (Some 1)) ?w)) 0
          = dicts ?w 0"
    by auto
  with n o show ?thesis
    by simp
qed

text \<open>
  As C6 is worded, the caller's extra parameters are unchanged after the call. A
  non-empty dictionary passed to \<^verbatim>\<open>get_request\<close> has the entry \<^verbatim>\<open>headers\<close> afterwards, which
  it did not have before.
\<close>

theorem caller_parameters_counterexample:
  "fmlookup (dicts (example_world ''2.9'' example_text (fmupd ''verify'' (PyBool False) fmempty)
                      (fmupd ''stream'' (PyBool True) fmempty)) 1) ''headers'' = None \<and>
   fmlookup (dicts (snd (invoke example_env (Get_request ''/sites'' None (Some 1))
                      (example_world ''2.9'' example_text
                         (fmupd ''verify'' (PyBool False) fmempty)
                         (fmupd ''stream'' (PyBool True) fmempty)))) 1) ''headers''
     = Some (PyHeaders (fmupd ''x-tableau-auth'' ''token'' fmempty)) \<and>
   dicts (snd (invoke example_env (Get_request ''/sites'' None (Some 1))
                 (example_world ''2.9'' example_text (fmupd ''verify'' (PyBool False) fmempty)
                    (fmupd ''stream'' (PyBool True) fmempty)))) 1
     \<noteq> dicts (example_world ''2.9'' example_text (fmupd ''verify'' (PyBool False) fmempty)
                (fmupd ''stream'' (PyBool True) fmempty)) 1"
proof -
  let ?w = "example_world ''2.9'' example_text (fmupd ''verify'' (PyBool False) fmempty)
              (fmupd ''stream'' (PyBool True) fmempty)"
  let ?w' = "snd (invoke example_env (Get_request ''/sites'' None (Some 1)) ?w)"
  have a: "fmlookup (dicts ?w 1) ''headers'' = None"
    by (simp add: example_world_def)
  have b: "fmlookup (dicts ?w' 1) ''headers''
             = Some (PyHeaders (fmupd ''x-tableau-auth'' ''token'' fmempty))"
    by (simp add: run_defs verb_defs)
  from a b have "dicts ?w' 1 \<noteq> dicts ?w 1"
    by (metis option.distinct(1))
  with a b show ?thesis
    by blast
qed

section \<open>Properties of the version gate\<close>

lemmas version_defs =
  LooseVersion_def LooseVersion_lt_def LooseVersion_cmp_def LooseVersion_parse_def
  kind_of_def int_of_digits_def

text \<open>
  Claim C1. For every wrapped operation with declared minimum version \<open>version'\<close>
  and every server version read from the session context, once the version class
  has made the two versions and compared them: if the server's version is below the
  minimum, the call raises \<^verbatim>\<open>EndpointUnavailableError\<close> with a message that carries the
  strings of both versions, and the world is the one before the call, so the wrapped
  operation was not invoked; otherwise the call is one invocation of the wrapped
  operation on the original arguments: its result and its effects, unchanged.
\<close>

theorem api_gates_on_version:
  assumes "new_version Version (version (parent_srv w)) = Inr server_version"
      and "new_version Version version' = Inr minimum_supported"
      and "version_lt Version server_version minimum_supported = Inr below"
  shows "api Version version' func args w =
           (if below
            then (Inl (EndpointUnavailableError
                    (''This endpoint is not available in API version '' @
                     version_str Version server_version @ ''. Requires '' @
                     version_str Version minimum_supported)), w)
            else func args w)"
  using assms by (simp add: api_def)

text \<open>
  A server at 2.9 against a minimum of 2.10: the error, and no record of the
  operation in the trace. A server at 2.10 against a minimum of 2.3: the result of
  the operation, and one record of it.
\<close>

theorem api_gates_on_version_witness:
  "api LooseVersion ''2.10'' example_operation 7
     (example_world ''2.9'' example_text fmempty fmempty)
     = (Inl (EndpointUnavailableError
               ''This endpoint is not available in API version 2.9. Requires 2.10''),
        example_world ''2.9'' example_text fmempty fmempty) \<and>
   api LooseVersion ''2.3'' example_operation 7
     (example_world ''2.10'' example_text fmempty fmempty)
     = (Inr 7, example_world ''2.10'' example_text fmempty fmempty
                 \<lparr>trace := [Log_debug ''called'']\<rparr>)"
proof -
  let ?old = "example_world ''2.9'' example_text fmempty fmempty"
  let ?new = "example_world ''2.10'' example_text fmempty fmempty"
  have a: "new_version LooseVersion (version (parent_srv ?old)) = Inr (LooseVersion_parse ''2.9'')"
    by (simp add: LooseVersion_def example_world_def)
  have b: "new_version LooseVersion s = Inr (LooseVersion_parse s)" for s
    by (simp add: LooseVersion_def)
  have c: "version_lt LooseVersion (LooseVersion_parse ''2.9'') (LooseVersion_parse ''2.10'')
             = Inr True"
    by (simp add: version_defs)
  have d: "new_version LooseVersion (version (parent_srv ?new)) = Inr (LooseVersion_parse ''2.10'')"
    by (simp add: LooseVersion_def example_world_def)
  have e: "version_lt LooseVersion (LooseVersion_parse ''2.10'') (LooseVersion_parse ''2.3'')
             = Inr False"
    by (simp add: version_defs)
  have s: "version_str LooseVersion (LooseVersion_parse s) = s" for s
    by (simp add: LooseVersion_def LooseVersion_parse_def)
  have t: "trace ?new = []"
    by (simp add: example_world_def)
  from api_gates_on_version [OF a b c, of example_operation 7]
    api_gates_on_version [OF d b e, of example_operation 7]
  show ?thesis
    by (simp add: s t example_operation_def)
qed

section \<open>Properties of the version class\<close>

lemma pieces_digits_run:
  "list_all (\<lambda>x. kind_of x = Digit) c \<Longrightarrow>
     pieces (Some (Digit, acc)) (c @ rest) = pieces (Some (Digit, acc @ c)) rest"
  by (induction c arbitrary: acc) auto

lemma kind_of_dot: "kind_of (CHR ''.'') = Dot"
  by (simp add: kind_of_def)

lemma pieces_numeral:
  assumes "numeral_string c"
  shows "pieces None (c @ rest) = pieces (Some (Digit, c)) rest"
proof (cases c)
  case Nil
  with assms show ?thesis by (simp add: numeral_string_def)
next
  case (Cons x xs)
  with assms have x: "kind_of x = Digit" and xs: "list_all (\<lambda>x. kind_of x = Digit) xs"
    by (simp_all add: numeral_string_def)
  show ?thesis
    using x pieces_digits_run [OF xs, of "[x]" rest] by (simp add: Cons)
qed

lemma pieces_dot_join:
  "list_all numeral_string cs \<Longrightarrow> pieces None (dot_join cs) = map (Pair Digit) cs"
proof (induction cs rule: dot_join.induct)
  case 1
  then show ?case by simp
next
  case (2 c)
  then show ?case using pieces_numeral [of c "[]"] by simp
next
  case (3 c d cs)
  then show ?case
    using pieces_numeral [of c "''.'' @ dot_join (d # cs)"] by (simp add: kind_of_dot)
qed

lemma components_dot_join:
  "list_all numeral_string cs \<Longrightarrow>
     components (LooseVersion_parse (dot_join cs)) = map (\<lambda>c. CInt (int_of_digits c)) cs"
  by (simp add: LooseVersion_parse_def pieces_dot_join)

lemma list_lt_ints:
  "list_lt (map CInt ms) (map CInt ns) = Inr ((ms, ns) \<in> lexord {(m, n). m < n})"
  by (induction ms ns rule: list_induct2') auto

lemma lexord_less_irrefl: "(ms, ms) \<notin> lexord {(m, n :: int). m < n}"
  by (induction ms) auto

lemma LooseVersion_lt_ints:
  assumes "components a = map CInt ms" "components b = map CInt ns"
  shows "LooseVersion_lt a b = Inr ((ms, ns) \<in> lexord {(m, n). m < n})"
proof (cases "ms = ns")
  case True
  with assms show ?thesis
    by (simp add: LooseVersion_lt_def LooseVersion_cmp_def lexord_less_irrefl)
next
  case False
  then have ne: "map CInt ms \<noteq> map CInt ns"
    by (simp add: inj_map_eq_map inj_on_def)
  show ?thesis
  proof (cases "(ms, ns) \<in> lexord {(m, n). m < n}")
    case True
    with assms ne show ?thesis
      by (simp add: LooseVersion_lt_def LooseVersion_cmp_def list_lt_ints)
  next
    case lt: False
    have "(ms, ns) \<in> lexord {(m, n). m < n} \<or> ms = ns \<or> (ns, ms) \<in> lexord {(m, n). m < n}"
      by (rule lexord_linear) auto
    with False lt have "(ns, ms) \<in> lexord {(m, n). m < n}"
      by blast
    with assms ne lt show ?thesis
      by (simp add: LooseVersion_lt_def LooseVersion_cmp_def list_lt_ints)
  qed
qed

text \<open>
  Claim C5. The comparison of the version class orders dotted version strings by
  the numeric comparison of their dot-separated components: for numerals \<open>cs\<close> and
  \<open>ds\<close>, the version made from \<^verbatim>\<open>'.'.join(cs)\<close> is smaller than the one made from
  \<^verbatim>\<open>'.'.join(ds)\<close> exactly when the list of the numbers of \<open>cs\<close> is lexicographically
  smaller, number by number, than that of \<open>ds\<close>; the comparison raises nothing. It is
  not the comparison of the strings: \<^verbatim>\<open>"2.9" < "2.10"\<close> as versions, while
  \<^verbatim>\<open>"2.10" < "2.9"\<close> as strings.
\<close>

theorem LooseVersion_orders_numerically:
  assumes "list_all numeral_string cs" and "list_all numeral_string ds"
  shows "version_lt LooseVersion (LooseVersion_parse (dot_join cs))
           (LooseVersion_parse (dot_join ds))
         = Inr ((map int_of_digits cs, map int_of_digits ds) \<in> lexord {(m, n). m < n})"
  using LooseVersion_lt_ints [of "LooseVersion_parse (dot_join cs)" "map int_of_digits cs"
          "LooseVersion_parse (dot_join ds)" "map int_of_digits ds"] assms
  by (simp add: components_dot_join LooseVersion_def comp_def)

theorem LooseVersion_orders_numerically_witness:
  "list_all numeral_string [''2'', ''9''] \<and> list_all numeral_string [''2'', ''10''] \<and>
   version_lt LooseVersion (LooseVersion_parse ''2.9'') (LooseVersion_parse ''2.10'') = Inr True \<and>
   version_lt LooseVersion (LooseVersion_parse ''2.10'') (LooseVersion_parse ''2.9'') = Inr False \<and>
   str_lt ''2.10'' ''2.9''"
proof -
  have n: "list_all numeral_string [''2'', ''9'']" "list_all numeral_string [''2'', ''10'']"
    by (simp_all add: numeral_string_def kind_of_def)
  have i: "int_of_digits ''2'' = 2" "int_of_digits ''9'' = 9" "int_of_digits ''10'' = 10"
    by (simp_all add: int_of_digits_def)
  show ?thesis
    using n LooseVersion_orders_numerically [OF n(1) n(2)]
      LooseVersion_orders_numerically [OF n(2) n(1)] by (simp add: i)
qed

end
